theory Spec2Isabelle
  imports Complex_Main "HOL-Library.AList" "HOL-Library.Char_ord" "HOL-Library.List_Lexorder"
begin

section \<open>Numbers of the host language\<close>

text \<open>
  The simulator (\<^verbatim>\<open>src/services/simulation.ts\<close>) computes with the host language's
  \<^verbatim>\<open>number\<close> type. A number is modelled as a finite value or one of the three special
  values \<^verbatim>\<open>NaN\<close>, \<^verbatim>\<open>Infinity\<close> and \<^verbatim>\<open>-Infinity\<close>; the special values follow the
  language's rules (a comparison with \<^verbatim>\<open>NaN\<close> is false, \<^verbatim>\<open>x / 0\<close> is infinite or
  \<^verbatim>\<open>NaN\<close>, \<^verbatim>\<open>undefined\<close> in arithmetic is \<^verbatim>\<open>NaN\<close>). Finite values are exact reals:
  rounding to 64 bits, overflow of a finite result and the sign of zero are not modelled.
\<close>

datatype jsnum = Fin real | NaN | PosInf | NegInf

fun js_neg :: "jsnum \<Rightarrow> jsnum" where
  "js_neg (Fin a) = Fin (- a)"
| "js_neg NaN = NaN"
| "js_neg PosInf = NegInf"
| "js_neg NegInf = PosInf"

fun js_add :: "jsnum \<Rightarrow> jsnum \<Rightarrow> jsnum" where
  "js_add (Fin a) (Fin b) = Fin (a + b)"
| "js_add NaN _ = NaN"
| "js_add _ NaN = NaN"
| "js_add PosInf NegInf = NaN"
| "js_add NegInf PosInf = NaN"
| "js_add PosInf _ = PosInf"
| "js_add _ PosInf = PosInf"
| "js_add NegInf _ = NegInf"
| "js_add _ NegInf = NegInf"

definition js_sub :: "jsnum \<Rightarrow> jsnum \<Rightarrow> jsnum" where
  "js_sub a b = js_add a (js_neg b)"

fun js_mul :: "jsnum \<Rightarrow> jsnum \<Rightarrow> jsnum" where
  "js_mul (Fin a) (Fin b) = Fin (a * b)"
| "js_mul NaN _ = NaN"
| "js_mul _ NaN = NaN"
| "js_mul PosInf (Fin b) = (if b = 0 then NaN else if 0 < b then PosInf else NegInf)"
| "js_mul NegInf (Fin b) = (if b = 0 then NaN else if 0 < b then NegInf else PosInf)"
| "js_mul (Fin a) PosInf = (if a = 0 then NaN else if 0 < a then PosInf else NegInf)"
| "js_mul (Fin a) NegInf = (if a = 0 then NaN else if 0 < a then NegInf else PosInf)"
| "js_mul PosInf PosInf = PosInf"
| "js_mul PosInf NegInf = NegInf"
| "js_mul NegInf PosInf = NegInf"
| "js_mul NegInf NegInf = PosInf"

fun js_div :: "jsnum \<Rightarrow> jsnum \<Rightarrow> jsnum" where
  "js_div (Fin a) (Fin b) =
     (if b \<noteq> 0 then Fin (a / b)
      else if a = 0 then NaN else if 0 < a then PosInf else NegInf)"
| "js_div NaN _ = NaN"
| "js_div _ NaN = NaN"
| "js_div (Fin a) PosInf = Fin 0"
| "js_div (Fin a) NegInf = Fin 0"
| "js_div PosInf (Fin b) = (if 0 \<le> b then PosInf else NegInf)"
| "js_div NegInf (Fin b) = (if 0 \<le> b then NegInf else PosInf)"
| "js_div PosInf PosInf = NaN"
| "js_div PosInf NegInf = NaN"
| "js_div NegInf PosInf = NaN"
| "js_div NegInf NegInf = NaN"

text \<open>The comparison \<^verbatim>\<open>a < b\<close>; \<^verbatim>\<open>a > b\<close> is \<^verbatim>\<open>b < a\<close>.\<close>

fun js_lt :: "jsnum \<Rightarrow> jsnum \<Rightarrow> bool" where
  "js_lt (Fin a) (Fin b) = (a < b)"
| "js_lt NaN _ = False"
| "js_lt _ NaN = False"
| "js_lt NegInf NegInf = False"
| "js_lt NegInf _ = True"
| "js_lt _ NegInf = False"
| "js_lt PosInf _ = False"
| "js_lt _ PosInf = True"

definition js_gt :: "jsnum \<Rightarrow> jsnum \<Rightarrow> bool" where
  "js_gt a b = js_lt b a"

definition js_le :: "jsnum \<Rightarrow> jsnum \<Rightarrow> bool" where
  "js_le a b = (a \<noteq> NaN \<and> b \<noteq> NaN \<and> \<not> js_lt b a)"

fun js_floor :: "jsnum \<Rightarrow> jsnum" where
  "js_floor (Fin a) = Fin (of_int \<lfloor>a\<rfloor>)"
| "js_floor x = x"

fun js_abs :: "jsnum \<Rightarrow> jsnum" where
  "js_abs (Fin a) = Fin \<bar>a\<bar>"
| "js_abs NaN = NaN"
| "js_abs PosInf = PosInf"
| "js_abs NegInf = PosInf"

fun js_sqrt :: "jsnum \<Rightarrow> jsnum" where
  "js_sqrt (Fin a) = (if a < 0 then NaN else Fin (sqrt a))"
| "js_sqrt NaN = NaN"
| "js_sqrt PosInf = PosInf"
| "js_sqrt NegInf = NaN"

text \<open>\<^verbatim>\<open>Math.min(a, b)\<close> and \<^verbatim>\<open>Math.max(a, b)\<close>: \<^verbatim>\<open>NaN\<close> if either argument is.\<close>

definition js_min :: "jsnum \<Rightarrow> jsnum \<Rightarrow> jsnum" where
  "js_min a b = (if a = NaN \<or> b = NaN then NaN else if js_lt b a then b else a)"

definition js_max :: "jsnum \<Rightarrow> jsnum \<Rightarrow> jsnum" where
  "js_max a b = (if a = NaN \<or> b = NaN then NaN else if js_lt a b then b else a)"

text \<open>\<^verbatim>\<open>Math.max(...xs)\<close>: \<^verbatim>\<open>-Infinity\<close> for no argument.\<close>

definition js_max_list :: "jsnum list \<Rightarrow> jsnum" where
  "js_max_list xs = fold (\<lambda>x m. js_max m x) xs NegInf"

text \<open>
  A value read from an object or passed as an argument may be \<^verbatim>\<open>undefined\<close>
  (\<open>None\<close>). \<open>truthy\<close> is the test of \<^verbatim>\<open>v ? a : b\<close> and \<^verbatim>\<open>v || d\<close>, \<open>to_number\<close> the
  conversion arithmetic applies to its operands.
\<close>

fun truthy :: "jsnum option \<Rightarrow> bool" where
  "truthy None = False"
| "truthy (Some (Fin a)) = (a \<noteq> 0)"
| "truthy (Some NaN) = False"
| "truthy (Some _) = True"

fun to_number :: "jsnum option \<Rightarrow> jsnum" where
  "to_number None = NaN"
| "to_number (Some x) = x"

definition or_zero :: "jsnum option \<Rightarrow> jsnum" where
  "or_zero v = (if truthy v then to_number v else Fin 0)"

subsection \<open>Printing numbers\<close>

definition digit_char :: "nat \<Rightarrow> char" where
  "digit_char n = ''0123456789'' ! n"

fun show_nat :: "nat \<Rightarrow> string" where
  "show_nat n = (if n < 10 then [digit_char n] else show_nat (n div 10) @ [digit_char (n mod 10)])"

declare show_nat.simps [simp del]

text \<open>
  \<^verbatim>\<open>x.toFixed(1)\<close>: the nearest multiple of one tenth, the larger one on a tie, printed
  with one decimal. (Magnitudes of \<open>10\<^sup>2\<^sup>1\<close> and more, which the language prints in
  exponent notation, are printed positionally here.)
\<close>

definition toFixed1 :: "jsnum \<Rightarrow> string" where
  "toFixed1 v =
     (case v of
        NaN \<Rightarrow> ''NaN''
      | PosInf \<Rightarrow> ''Infinity''
      | NegInf \<Rightarrow> ''-Infinity''
      | Fin x \<Rightarrow>
          (let n = nat \<lfloor>\<bar>x\<bar> * 10 + 1 / 2\<rfloor>;
               s = show_nat (n div 10) @ ''.'' @ show_nat (n mod 10)
           in if x < 0 then ''-'' @ s else s))"

section \<open>Data model (\<^verbatim>\<open>src/types/index.ts\<close>)\<close>

text \<open>
  A \<^verbatim>\<open>Record<string, T>\<close> is an association list in insertion order, the order in which
  \<^verbatim>\<open>Object.entries\<close> lists its keys: assignment is \<^const>\<open>AList.update\<close> (an existing key
  keeps its place, a new one goes last), \<^verbatim>\<open>delete\<close> is \<^const>\<open>AList.delete\<close>, a read is
  \<^const>\<open>map_of\<close>. Tickers are taken to be ordinary symbols: neither integer-like keys,
  which the language lists first, nor names of inherited object properties.
\<close>

type_synonym 'a obj = "(string \<times> 'a) list"

record HistoricalPrice =
  date :: string
  open_price :: jsnum
  high :: jsnum
  low :: jsnum
  close :: jsnum
  volume :: jsnum

record Portfolio =
  assets :: "jsnum obj"
  cash :: jsnum
  totalValue :: jsnum
  dailyReturns :: "jsnum list"
  dates :: "string list"
  values_hist :: "jsnum list"

datatype Action = BUY | SELL

record Trade =
  trade_id :: string
  trade_date :: string
  trade_ticker :: string
  trade_action :: Action
  quantity :: jsnum
  price :: "jsnum option"
  trade_value :: jsnum
  trade_reason :: string

record RiskControls =
  maxDrawdown :: jsnum
  volatilityCap :: jsnum
  stopLoss :: jsnum

record SimulationConfig =
  tickers :: "string list"
  startDate :: string
  endDate :: string
  initialCapital :: jsnum
  strategy :: string
  riskControls :: RiskControls

text \<open>The signals \<^verbatim>\<open>generateSignals\<close> returns and \<^verbatim>\<open>executeTrade\<close> consumes.\<close>

record Signal =
  ticker :: string
  action :: Action
  weight :: "jsnum option"
  reason :: string

section \<open>The simulator (\<^verbatim>\<open>PortfolioSimulator\<close>)\<close>

text \<open>
  The mutable fields of the class. \<open>console\<close> collects the lines written by
  \<^verbatim>\<open>console.log\<close>. The configuration and the loaded price history do not change during
  the daily loop and are passed as arguments.
\<close>

record Sim =
  portfolio :: Portfolio
  trades :: "Trade list"
  console :: "string list"

definition constructor :: "SimulationConfig \<Rightarrow> Sim" where
  "constructor config =
     \<lparr>portfolio =
        \<lparr>assets = [], cash = initialCapital config, totalValue = initialCapital config,
         dailyReturns = [], dates = [], values_hist = [initialCapital config]\<rparr>,
      trades = [], console = []\<rparr>"

subsection \<open>Trade execution\<close>

text \<open>
  \<^verbatim>\<open>Date.now()\<close> is read once for every trade that is recorded and nowhere else; the
  wall clock is a function \<open>clock\<close> from the number of readings taken so far to the
  reading.
\<close>

definition trade_id_of :: "string \<Rightarrow> string \<Rightarrow> nat \<Rightarrow> string" where
  "trade_id_of d t now = d @ ''-'' @ t @ ''-'' @ show_nat now"

definition executeTrade :: "(nat \<Rightarrow> nat) \<Rightarrow> Signal \<Rightarrow> string \<Rightarrow> jsnum option \<Rightarrow> Sim \<Rightarrow> Sim" where
  "executeTrade clock signal d pr st =
     (let p = portfolio st in
      case action signal of
        BUY \<Rightarrow>
          (let targetValue =
                 (if truthy (weight signal) then js_mul (totalValue p) (to_number (weight signal))
                  else js_min (js_mul (cash p) (Fin 0.2)) (Fin 10000));
               q = js_floor (js_div targetValue (to_number pr));
               v = js_mul q (to_number pr)
           in if js_gt q (Fin 0) \<and> js_le v (cash p) then
                st\<lparr>portfolio :=
                     p\<lparr>assets :=
                         AList.update (ticker signal)
                           (js_add (or_zero (map_of (assets p) (ticker signal))) q) (assets p),
                       cash := js_sub (cash p) v\<rparr>,
                   trades :=
                     trades st @
                     [\<lparr>trade_id = trade_id_of d (ticker signal) (clock (length (trades st))),
                       trade_date = d, trade_ticker = ticker signal, trade_action = BUY,
                       quantity = q, price = pr, trade_value = v,
                       trade_reason = reason signal\<rparr>]\<rparr>
              else st)
      | SELL \<Rightarrow>
          (let q = or_zero (map_of (assets p) (ticker signal));
               v = js_mul q (to_number pr)
           in if js_gt q (Fin 0) then
                st\<lparr>portfolio :=
                     p\<lparr>assets := AList.delete (ticker signal) (assets p),
                       cash := js_add (cash p) v\<rparr>,
                   trades :=
                     trades st @
                     [\<lparr>trade_id = trade_id_of d (ticker signal) (clock (length (trades st))),
                       trade_date = d, trade_ticker = ticker signal, trade_action = SELL,
                       quantity = q, price = pr, trade_value = v,
                       trade_reason = reason signal\<rparr>]\<rparr>
              else st))"

subsection \<open>Loading the price history and the trading calendar\<close>

text \<open>
  The price source (\<^verbatim>\<open>fetchHistoricalData\<close>) is an argument: for a ticker and the two
  dates of the configuration it returns the bars or throws. \<^verbatim>\<open>Promise.all\<close> rejects with
  the rejection that settles first; the model reports the first one in the order of the
  configured tickers.
\<close>

datatype error = Error string

type_synonym price_source = "string \<Rightarrow> string \<Rightarrow> string \<Rightarrow> error + HistoricalPrice list"

fun load_tickers ::
  "price_source \<Rightarrow> SimulationConfig \<Rightarrow> string list \<Rightarrow> HistoricalPrice list obj \<Rightarrow>
   error + HistoricalPrice list obj" where
  "load_tickers fetch config [] h = Inr h"
| "load_tickers fetch config (t # ts) h =
     (case fetch t (startDate config) (endDate config) of
        Inl e \<Rightarrow> Inl e
      | Inr data \<Rightarrow> load_tickers fetch config ts (AList.update t data h))"

definition loadHistoricalData ::
  "price_source \<Rightarrow> SimulationConfig \<Rightarrow> error + HistoricalPrice list obj" where
  "loadHistoricalData fetch config = load_tickers fetch config (tickers config) []"

text \<open>
  \<^verbatim>\<open>[...new Set(xs)]\<close>: the first occurrence of every element, in order. The default
  \<^verbatim>\<open>sort()\<close> orders strings by their code units, here the lexicographic order of
  the characters.
\<close>

definition set_order :: "'a list \<Rightarrow> 'a list" where
  "set_order xs = rev (remdups (rev xs))"

definition getTradingDates :: "HistoricalPrice list obj \<Rightarrow> string list" where
  "getTradingDates hist = sort (set_order (map date (concat (map snd hist))))"

subsection \<open>Signal generation\<close>

fun findIndex :: "('a \<Rightarrow> bool) \<Rightarrow> 'a list \<Rightarrow> int" where
  "findIndex P [] = - 1"
| "findIndex P (x # xs) =
     (if P x then 0 else (let i = findIndex P xs in if i < 0 then - 1 else i + 1))"

text \<open>\<^verbatim>\<open>xs.slice(a, b)\<close> for \<open>0 \<le> a\<close> and \<open>0 \<le> b\<close>, the only use the simulator makes.\<close>

definition slice :: "int \<Rightarrow> int \<Rightarrow> 'a list \<Rightarrow> 'a list" where
  "slice a b xs = take (nat (b - a)) (drop (nat a) xs)"

definition getRecentPrices :: "HistoricalPrice list obj \<Rightarrow> string \<Rightarrow> string \<Rightarrow> int \<Rightarrow> jsnum list" where
  "getRecentPrices hist t currentDate days =
     (let data = (case map_of hist t of None \<Rightarrow> [] | Some bars \<Rightarrow> bars);
          currentIndex = findIndex (\<lambda>b. date b = currentDate) data
      in if currentIndex < days - 1 then []
         else map close (slice (max 0 (currentIndex - days + 1)) (currentIndex + 1) data))"

definition has_key :: "'a obj \<Rightarrow> string \<Rightarrow> bool" where
  "has_key m k = (map_of m k \<noteq> None)"

definition equal_weight_signals ::
  "SimulationConfig \<Rightarrow> nat \<Rightarrow> (string \<rightharpoonup> jsnum) \<Rightarrow> Portfolio \<Rightarrow> Signal list" where
  "equal_weight_signals config dayIndex prices p =
     (if dayIndex = 0 then
        (let weightPerAsset = js_div (Fin 1) (Fin (real (length (tickers config))))
         in map (\<lambda>t. \<lparr>ticker = t, action = BUY, weight = Some weightPerAsset,
                      reason = ''Initial equal weight allocation''\<rparr>) (tickers config))
      else if dayIndex mod 20 = 0 then
        (let targetWeight = js_div (Fin 1) (Fin (real (length (tickers config))))
         in concat (map (\<lambda>t.
              let currentValue = js_mul (or_zero (map_of (assets p) t)) (to_number (prices t));
                  currentWeight = js_div currentValue (totalValue p)
              in if js_gt (js_abs (js_sub currentWeight targetWeight)) (Fin 0.05) then
                   [\<lparr>ticker = t,
                     action = (if js_gt currentWeight targetWeight then SELL else BUY),
                     weight = Some targetWeight,
                     reason = ''Rebalancing to equal weights''\<rparr>]
                 else []) (tickers config)))
      else [])"

definition momentum_signals ::
  "SimulationConfig \<Rightarrow> HistoricalPrice list obj \<Rightarrow> string \<Rightarrow> nat \<Rightarrow> Portfolio \<Rightarrow> Signal list" where
  "momentum_signals config hist d dayIndex p =
     (if 20 \<le> dayIndex then
        concat (map (\<lambda>t.
          let recent = getRecentPrices hist t d 20
          in if 20 \<le> length recent then
               (let momentum =
                      js_div (js_sub (recent ! (length recent - 1)) (recent ! 0)) (recent ! 0)
                in if js_gt momentum (Fin 0.05) \<and> \<not> has_key (assets p) t then
                     [\<lparr>ticker = t, action = BUY, weight = Some (Fin 0.2),
                       reason = ''Strong momentum: '' @ toFixed1 (js_mul momentum (Fin 100)) @ ''%''\<rparr>]
                   else if js_lt momentum (Fin (- 0.05)) \<and> has_key (assets p) t then
                     [\<lparr>ticker = t, action = SELL, weight = None,
                       reason = ''Negative momentum: '' @ toFixed1 (js_mul momentum (Fin 100)) @ ''%''\<rparr>]
                   else [])
             else []) (tickers config))
      else [])"

definition mean_reversion_signals ::
  "SimulationConfig \<Rightarrow> HistoricalPrice list obj \<Rightarrow> string \<Rightarrow> nat \<Rightarrow> (string \<rightharpoonup> jsnum) \<Rightarrow>
   Portfolio \<Rightarrow> Signal list" where
  "mean_reversion_signals config hist d dayIndex prices p =
     (if 20 \<le> dayIndex then
        concat (map (\<lambda>t.
          let recent = getRecentPrices hist t d 20
          in if 20 \<le> length recent then
               (let currentPrice = to_number (prices t);
                    average = js_div (foldl js_add (Fin 0) recent) (Fin (real (length recent)));
                    deviation = js_div (js_sub currentPrice average) average
                in if js_lt deviation (Fin (- 0.1)) \<and> \<not> has_key (assets p) t then
                     [\<lparr>ticker = t, action = BUY, weight = Some (Fin 0.2),
                       reason = ''Oversold: '' @ toFixed1 (js_mul deviation (Fin 100)) @
                                ''% below average''\<rparr>]
                   else if js_gt deviation (Fin 0.1) \<and> has_key (assets p) t then
                     [\<lparr>ticker = t, action = SELL, weight = None,
                       reason = ''Overbought: '' @ toFixed1 (js_mul deviation (Fin 100)) @
                                ''% above average''\<rparr>]
                   else [])
             else []) (tickers config))
      else [])"

definition generateSignals ::
  "SimulationConfig \<Rightarrow> HistoricalPrice list obj \<Rightarrow> string \<Rightarrow> nat \<Rightarrow> (string \<rightharpoonup> jsnum) \<Rightarrow>
   Sim \<Rightarrow> Signal list" where
  "generateSignals config hist d dayIndex prices st =
     (if strategy config = ''equal-weight'' then
        equal_weight_signals config dayIndex prices (portfolio st)
      else if strategy config = ''momentum'' then
        momentum_signals config hist d dayIndex (portfolio st)
      else if strategy config = ''mean-reversion'' then
        mean_reversion_signals config hist d dayIndex prices (portfolio st)
      else [])"

subsection \<open>The simulated day\<close>

definition updatePortfolioValue :: "string \<Rightarrow> (string \<rightharpoonup> jsnum) \<Rightarrow> Sim \<Rightarrow> Sim" where
  "updatePortfolioValue d prices st =
     (let p = portfolio st;
          total = fold (\<lambda>(t, q) acc. js_add acc (js_mul q (or_zero (prices t)))) (assets p) (cash p);
          previousValue = totalValue p;
          dailyReturn = js_div (js_sub total previousValue) previousValue
      in st\<lparr>portfolio :=
              p\<lparr>totalValue := total, values_hist := values_hist p @ [total],
                dates := dates p @ [d], dailyReturns := dailyReturns p @ [dailyReturn]\<rparr>\<rparr>)"

definition day_prices :: "SimulationConfig \<Rightarrow> HistoricalPrice list obj \<Rightarrow> string \<Rightarrow> (string \<rightharpoonup> jsnum)" where
  "day_prices config hist d =
     fold (\<lambda>t prices.
            case Option.bind (map_of hist t) (find (\<lambda>b. date b = d)) of
              None \<Rightarrow> prices
            | Some dayData \<Rightarrow> prices(t \<mapsto> close dayData))
       (tickers config) Map.empty"

definition simulateDay ::
  "(nat \<Rightarrow> nat) \<Rightarrow> SimulationConfig \<Rightarrow> HistoricalPrice list obj \<Rightarrow> string \<Rightarrow> nat \<Rightarrow> Sim \<Rightarrow> Sim" where
  "simulateDay clock config hist d dayIndex st =
     (let prices = day_prices config hist d;
          signals = generateSignals config hist d dayIndex prices st;
          st' = fold (\<lambda>signal s. executeTrade clock signal d (prices (ticker signal)) s) signals st
      in updatePortfolioValue d prices st')"

subsection \<open>Risk controls\<close>

text \<open>\<^verbatim>\<open>xs[i]\<close>: \<^verbatim>\<open>undefined\<close> out of range.\<close>

definition js_index :: "'a list \<Rightarrow> nat \<Rightarrow> 'a option" where
  "js_index xs i = (if i < length xs then Some (xs ! i) else None)"

definition calculateCurrentDrawdown :: "Sim \<Rightarrow> jsnum" where
  "calculateCurrentDrawdown st =
     (let vs = values_hist (portfolio st)
      in if length vs < 2 then Fin 0
         else (let peak = js_max_list vs; current = vs ! (length vs - 1)
               in js_div (js_sub peak current) peak))"

definition liquidateAll :: "string \<Rightarrow> string \<Rightarrow> Sim \<Rightarrow> Sim" where
  "liquidateAll d why st =
     st\<lparr>console := console st @ [''Liquidating all positions on '' @ d @ '' due to '' @ why],
        portfolio := (portfolio st)\<lparr>assets := [], totalValue := cash (portfolio st)\<rparr>\<rparr>"

definition currentLoss :: "Sim \<Rightarrow> jsnum" where
  "currentLoss st =
     (let initialValue = to_number (js_index (values_hist (portfolio st)) 0)
      in js_div (js_sub initialValue (totalValue (portfolio st))) initialValue)"

definition applyRiskControls :: "SimulationConfig \<Rightarrow> string \<Rightarrow> Sim \<Rightarrow> Sim" where
  "applyRiskControls config d st =
     (let currentDrawdown = calculateCurrentDrawdown st;
          st1 = (if js_gt currentDrawdown (js_div (maxDrawdown (riskControls config)) (Fin 100))
                 then liquidateAll d ''Max drawdown exceeded'' st else st)
      in if js_gt (currentLoss st1) (js_div (stopLoss (riskControls config)) (Fin 100))
         then liquidateAll d ''Stop loss triggered'' st1 else st1)"

subsection \<open>Performance metrics and the chart series\<close>

record PerformanceMetrics =
  totalReturn :: jsnum
  sharpeRatio :: jsnum
  maxDrawdown_m :: jsnum
  winRate :: jsnum
  volatility :: jsnum
  alpha :: jsnum
  beta :: jsnum

record ChartDataPoint =
  cd_date :: string
  cd_value :: "jsnum option"
  drawdown :: jsnum
  benchmark :: jsnum

record SimulationResult =
  res_portfolio :: Portfolio
  res_trades :: "Trade list"
  metrics :: PerformanceMetrics
  chartData :: "ChartDataPoint list"

definition calculateVolatility :: "jsnum list \<Rightarrow> jsnum" where
  "calculateVolatility returns =
     (if length returns = 0 then Fin 0
      else (let n = Fin (real (length returns));
                mean = js_div (foldl js_add (Fin 0) returns) n;
                variance =
                  js_div (foldl (\<lambda>acc ret. js_add acc (js_mul (js_sub ret mean) (js_sub ret mean)))
                            (Fin 0) returns) n
            in js_mul (js_sqrt variance) (js_sqrt (Fin 252))))"

definition calculateSharpeRatio :: "jsnum list \<Rightarrow> jsnum" where
  "calculateSharpeRatio returns =
     (if length returns = 0 then Fin 0
      else (let meanReturn = js_div (foldl js_add (Fin 0) returns) (Fin (real (length returns)));
                vol = js_div (calculateVolatility returns) (js_sqrt (Fin 252));
                riskFreeRate = js_div (Fin 0.02) (Fin 252)
            in if js_gt vol (Fin 0) then js_div (js_sub meanReturn riskFreeRate) vol
               else Fin 0))"

definition calculateMaxDrawdown :: "Sim \<Rightarrow> jsnum" where
  "calculateMaxDrawdown st =
     (let vs = values_hist (portfolio st)
      in fst (fold (\<lambda>v (maxDD, peak).
                 let peak' = (if js_gt v peak then v else peak);
                     dd = js_div (js_sub peak' v) peak'
                 in (js_max maxDD dd, peak'))
               vs (Fin 0, to_number (js_index vs 0))))"

definition calculateWinRate :: "Sim \<Rightarrow> jsnum" where
  "calculateWinRate st =
     (if length (trades st) = 0 then Fin 0
      else (let sellTrades = filter (\<lambda>t. trade_action t = SELL) (trades st);
                winningTrades =
                  filter (\<lambda>trade.
                    case find (\<lambda>t. trade_ticker t = trade_ticker trade \<and> trade_action t = BUY \<and>
                                   trade_date t < trade_date trade) (trades st) of
                      None \<Rightarrow> False
                    | Some buyTrade \<Rightarrow> js_gt (to_number (price trade)) (to_number (price buyTrade)))
                    sellTrades
            in if 0 < length sellTrades
               then js_div (Fin (real (length winningTrades))) (Fin (real (length sellTrades)))
               else Fin 0))"

definition calculateMetrics :: "Sim \<Rightarrow> PerformanceMetrics" where
  "calculateMetrics st =
     (let returns = dailyReturns (portfolio st);
          initialValue = to_number (js_index (values_hist (portfolio st)) 0);
          finalValue = totalValue (portfolio st)
      in \<lparr>totalReturn = js_div (js_sub finalValue initialValue) initialValue,
          sharpeRatio = calculateSharpeRatio returns,
          maxDrawdown_m = calculateMaxDrawdown st,
          winRate = calculateWinRate st,
          volatility = calculateVolatility returns,
          alpha = Fin 0.02,
          beta = Fin 1.1\<rparr>)"

definition generateChartData :: "SimulationConfig \<Rightarrow> Sim \<Rightarrow> ChartDataPoint list" where
  "generateChartData config st =
     map (\<lambda>(d, i).
            let v = js_index (values_hist (portfolio st)) (i + 1);
                peak = js_max_list (slice 0 (int i + 2) (values_hist (portfolio st)));
                dd = (if js_lt (to_number v) peak then js_div (js_sub peak (to_number v)) peak
                      else Fin 0)
            in \<lparr>cd_date = d, cd_value = v, drawdown = js_mul dd (Fin 100),
                benchmark =
                  js_mul (initialCapital config)
                    (js_add (Fin 1) (js_mul (Fin 0.0003) (Fin (real i))))\<rparr>)
       (zip (dates (portfolio st)) [0 ..< length (dates (portfolio st))])"

subsection \<open>The run\<close>

text \<open>The daily loop of \<^verbatim>\<open>simulate\<close>, from day index \<open>i\<close> on.\<close>

fun daily_loop ::
  "(nat \<Rightarrow> nat) \<Rightarrow> SimulationConfig \<Rightarrow> HistoricalPrice list obj \<Rightarrow> string list \<Rightarrow> nat \<Rightarrow>
   Sim \<Rightarrow> Sim" where
  "daily_loop clock config hist [] i st = st"
| "daily_loop clock config hist (d # ds) i st =
     daily_loop clock config hist ds (Suc i)
       (applyRiskControls config d (simulateDay clock config hist d i st))"

definition simulate ::
  "price_source \<Rightarrow> (nat \<Rightarrow> nat) \<Rightarrow> SimulationConfig \<Rightarrow> Sim \<Rightarrow> error + SimulationResult" where
  "simulate fetch clock config st =
     (case loadHistoricalData fetch config of
        Inl e \<Rightarrow> Inl e
      | Inr hist \<Rightarrow>
          (let tradingDates = getTradingDates hist;
               st' = daily_loop clock config hist tradingDates 0 st
           in Inr \<lparr>res_portfolio = portfolio st', res_trades = trades st',
                   metrics = calculateMetrics st',
                   chartData = generateChartData config st'\<rparr>))"

definition runSimulation ::
  "price_source \<Rightarrow> (nat \<Rightarrow> nat) \<Rightarrow> SimulationConfig \<Rightarrow> error + SimulationResult" where
  "runSimulation fetch clock config = simulate fetch clock config (constructor config)"

section \<open>The properties in the words of the specification\<close>

text \<open>
  The value of a ledger at the day's prices: cash plus, for every held position in the
  ledger's order, quantity times the day's close, a ticker without a price that day
  counting with price 0.
\<close>

definition marked_value :: "(string \<rightharpoonup> jsnum) \<Rightarrow> Portfolio \<Rightarrow> jsnum" where
  "marked_value prices p =
     fold (\<lambda>(t, q) total. js_add total (js_mul q (or_zero (prices t)))) (assets p) (cash p)"

text \<open>
  The shape of the ledger's history: the valuation history starts with \<open>c\<close> and has
  one entry more than the daily returns.
\<close>

definition seeded :: "jsnum \<Rightarrow> Sim \<Rightarrow> bool" where
  "seeded c st \<longleftrightarrow>
     js_index (values_hist (portfolio st)) 0 = Some c \<and>
     length (values_hist (portfolio st)) = Suc (length (dailyReturns (portfolio st)))"

text \<open>A trade without its identifier.\<close>

definition without_id :: "Trade \<Rightarrow> Trade" where
  "without_id t = t\<lparr>trade_id := []\<rparr>"

text \<open>Two simulator states that differ at most in the identifiers of their trades.\<close>

definition same_but_ids :: "Sim \<Rightarrow> Sim \<Rightarrow> bool" where
  "same_but_ids s1 s2 \<longleftrightarrow>
     portfolio s1 = portfolio s2 \<and> console s1 = console s2 \<and>
     map without_id (trades s1) = map without_id (trades s2)"

text \<open>
  The trailing window of the momentum strategy in the words of the specification: of the
  ticker's bars up to and including the bar of the current date, the closes of the last
  \<open>n\<close>; none if the ticker has no bar on that date. The momentum of a window is the
  latest close minus the earliest, over the earliest.
\<close>

definition bars_of :: "HistoricalPrice list obj \<Rightarrow> string \<Rightarrow> HistoricalPrice list" where
  "bars_of hist t = (case map_of hist t of None \<Rightarrow> [] | Some bars \<Rightarrow> bars)"

definition trailing_closes :: "HistoricalPrice list \<Rightarrow> string \<Rightarrow> nat \<Rightarrow> jsnum list" where
  "trailing_closes bars d n =
     (let k = length (takeWhile (\<lambda>b. date b \<noteq> d) bars)
      in if k < length bars then map close (drop (Suc k - n) (take (Suc k) bars)) else [])"

definition momentum_of :: "jsnum list \<Rightarrow> jsnum" where
  "momentum_of w = js_div (js_sub (last w) (hd w)) (hd w)"

section \<open>Example data\<close>

definition bar :: "string \<Rightarrow> real \<Rightarrow> HistoricalPrice" where
  "bar d c =
     \<lparr>date = d, open_price = Fin c, high = Fin c, low = Fin c, close = Fin c, volume = Fin 1000\<rparr>"

text \<open>One ticker whose close halves on the second day.\<close>

definition falling_source :: price_source where
  "falling_source t s e =
     (if t = ''A'' then Inr [bar ''2024-01-01'' 10, bar ''2024-01-02'' 5, bar ''2024-01-03'' 5]
      else Inl (Error (''Unknown ticker: '' @ t)))"

definition falling_config :: SimulationConfig where
  "falling_config =
     \<lparr>tickers = [''A''], startDate = ''2024-01-01'', endDate = ''2024-01-05'',
      initialCapital = Fin 105, strategy = ''equal-weight'',
      riskControls = \<lparr>maxDrawdown = Fin 20, volatilityCap = Fin 25, stopLoss = Fin 15\<rparr>\<rparr>"

definition falling_history :: "HistoricalPrice list obj" where
  "falling_history = [(''A'', [bar ''2024-01-01'' 10, bar ''2024-01-02'' 5, bar ''2024-01-03'' 5])]"

text \<open>Two tickers, the second without a bar on the first day.\<close>

definition gap_config :: SimulationConfig where
  "gap_config =
     \<lparr>tickers = [''A'', ''B''], startDate = ''2024-01-01'', endDate = ''2024-01-05'',
      initialCapital = Fin 1000, strategy = ''equal-weight'',
      riskControls = \<lparr>maxDrawdown = Fin 20, volatilityCap = Fin 25, stopLoss = Fin 15\<rparr>\<rparr>"

definition gap_history :: "HistoricalPrice list obj" where
  "gap_history =
     [(''A'', [bar ''2024-01-01'' 10, bar ''2024-01-02'' 11]), (''B'', [bar ''2024-01-02'' 20])]"

text \<open>
  The ledger of that run after its first day, with the clock reading 7: ten shares bought
  at 10, five left in cash.
\<close>

definition holding_state :: Sim where
  "holding_state =
     \<lparr>portfolio =
        \<lparr>assets = [(''A'', Fin 10)], cash = Fin 5, totalValue = Fin 105,
         dailyReturns = [Fin 0], dates = [''2024-01-01''], values_hist = [Fin 105, Fin 105]\<rparr>,
      trades =
        [\<lparr>trade_id = ''2024-01-01-A-7'', trade_date = ''2024-01-01'', trade_ticker = ''A'',
          trade_action = BUY, quantity = Fin 10, price = Some (Fin 10), trade_value = Fin 100,
          trade_reason = ''Initial equal weight allocation''\<rparr>],
      console = []\<rparr>"

text \<open>Ledgers without positions whose last valuation is \<open>v\<close>, after a first one of 100.\<close>

definition cash_state :: "real \<Rightarrow> Sim" where
  "cash_state v =
     \<lparr>portfolio =
        \<lparr>assets = [], cash = Fin v, totalValue = Fin v,
         dailyReturns = [Fin ((v - 100) / 100)], dates = [''2024-01-01''],
         values_hist = [Fin 100, Fin v]\<rparr>,
      trades = [], console = []\<rparr>"

definition boundary_config :: SimulationConfig where
  "boundary_config =
     \<lparr>tickers = [''A''], startDate = ''2024-01-01'', endDate = ''2024-01-05'',
      initialCapital = Fin 100, strategy = ''momentum'',
      riskControls = \<lparr>maxDrawdown = Fin 20, volatilityCap = Fin 25, stopLoss = Fin 20\<rparr>\<rparr>"

text \<open>One ticker whose close rises by one a day, from 100 to 120, over 21 days.\<close>

definition rising_history :: "HistoricalPrice list obj" where
  "rising_history =
     [(''A'', map (\<lambda>k. bar (''2024-01-'' @ show_nat (10 + k)) (real (100 + k))) [0 ..< 21])]"

definition rising_config :: SimulationConfig where
  "rising_config =
     \<lparr>tickers = [''A''], startDate = ''2024-01-10'', endDate = ''2024-01-30'',
      initialCapital = Fin 100000, strategy = ''momentum'',
      riskControls = \<lparr>maxDrawdown = Fin 20, volatilityCap = Fin 25, stopLoss = Fin 15\<rparr>\<rparr>"

text \<open>Configurations outside the constraints of the data model.\<close>

definition invalid_config :: SimulationConfig where
  "invalid_config =
     \<lparr>tickers = [], startDate = ''2024-01-05'', endDate = ''2024-01-01'',
      initialCapital = Fin (- 5), strategy = ''equal-weight'',
      riskControls = \<lparr>maxDrawdown = Fin 20, volatilityCap = Fin 25, stopLoss = Fin 15\<rparr>\<rparr>"

definition reversed_config :: SimulationConfig where
  "reversed_config =
     \<lparr>tickers = [''A''], startDate = ''2024-01-05'', endDate = ''2024-01-01'',
      initialCapital = Fin 0, strategy = ''equal-weight'',
      riskControls = \<lparr>maxDrawdown = Fin 20, volatilityCap = Fin 25, stopLoss = Fin 15\<rparr>\<rparr>"

section \<open>Facts about the numbers\<close>

lemma js_div_NaN_right [simp]: "js_div x NaN = NaN"
  by (cases x) simp_all

lemma js_lt_NaN_right [simp]: "js_lt x NaN = False"
  by (cases x) simp_all

lemma js_lt_irrefl [simp]: "js_lt x x = False"
  by (cases x) simp_all

section \<open>Trade execution\<close>

text \<open>
  Claim C7. A BUY signal (its weight, when given, in the range \<open>(0, 1]\<close> of the data
  model) has target notional total value times weight, or the smaller of 0.2 times cash
  and 10000 when no weight is given; the share quantity is the floor of target notional
  over price. If the quantity is positive and quantity times price is at most the cash,
  the position of the ticker grows by the quantity, the cash falls by the trade value and
  exactly one trade record is appended; otherwise nothing changes.
\<close>

theorem executeTrade_buy:
  assumes "action signal = BUY"
    and "\<forall>w. weight signal = Some w \<longrightarrow> (\<exists>r. w = Fin r \<and> 0 < r \<and> r \<le> 1)"
  shows "let p = portfolio st;
             targetNotional =
               (case weight signal of
                  Some w \<Rightarrow> js_mul (totalValue p) w
                | None \<Rightarrow> js_min (js_mul (cash p) (Fin 0.2)) (Fin 10000));
             q = js_floor (js_div targetNotional (to_number pr));
             v = js_mul q (to_number pr);
             st' = executeTrade clock signal d pr st
         in if js_gt q (Fin 0) \<and> js_le v (cash p) then
              map_of (assets (portfolio st')) =
                (map_of (assets p))(ticker signal \<mapsto>
                   js_add (or_zero (map_of (assets p) (ticker signal))) q) \<and>
              cash (portfolio st') = js_sub (cash p) v \<and>
              trades st' = trades st @
                 [\<lparr>trade_id = trade_id_of d (ticker signal) (clock (length (trades st))),
                   trade_date = d, trade_ticker = ticker signal, trade_action = BUY,
                   quantity = q, price = pr, trade_value = v, trade_reason = reason signal\<rparr>]
            else st' = st"
proof (cases "weight signal")
  case None
  then show ?thesis using assms(1)
    by (simp add: executeTrade_def Let_def update_conv')
next
  case (Some w)
  with assms(2) obtain r where "w = Fin r" "0 < r" by auto
  with Some show ?thesis using assms(1)
    by (simp add: executeTrade_def Let_def update_conv')
qed

theorem executeTrade_buy_witness:
  "(let signal = \<lparr>ticker = ''A'', action = BUY, weight = Some (Fin 1),
                   reason = ''Initial equal weight allocation''\<rparr>;
        st' = executeTrade (\<lambda>_. 7) signal ''2024-01-01'' (Some (Fin 10))
                (constructor falling_config)
    in map_of (assets (portfolio st')) ''A'' = Some (Fin 10) \<and>
       cash (portfolio st') = Fin 5 \<and>
       trades st' =
         [\<lparr>trade_id = ''2024-01-01-A-7'', trade_date = ''2024-01-01'', trade_ticker = ''A'',
           trade_action = BUY, quantity = Fin 10, price = Some (Fin 10), trade_value = Fin 100,
           trade_reason = ''Initial equal weight allocation''\<rparr>]) \<and>
   (let signal = \<lparr>ticker = ''A'', action = BUY, weight = Some (Fin 1),
                   reason = ''Initial equal weight allocation''\<rparr>
    in executeTrade (\<lambda>_. 7) signal ''2024-01-01'' (Some (Fin 200)) (constructor falling_config) =
       constructor falling_config)"
  using
    executeTrade_buy [of "\<lparr>ticker = ''A'', action = BUY, weight = Some (Fin 1),
        reason = ''Initial equal weight allocation''\<rparr>" "constructor falling_config"
      "Some (Fin 10)" "\<lambda>_. 7" "''2024-01-01''"]
    executeTrade_buy [of "\<lparr>ticker = ''A'', action = BUY, weight = Some (Fin 1),
        reason = ''Initial equal weight allocation''\<rparr>" "constructor falling_config"
      "Some (Fin 200)" "\<lambda>_. 7" "''2024-01-01''"]
  by (simp add: Let_def constructor_def falling_config_def js_gt_def js_le_def js_sub_def
      or_zero_def trade_id_of_def show_nat.simps digit_char_def)

text \<open>
  Claim C8. A SELL signal sells the full position of its ticker: if that quantity is
  positive, the position entry is removed, the cash grows by quantity times price and one
  trade record is appended; if the ticker has no position, nothing changes and no trade
  is recorded.
\<close>

theorem executeTrade_sell:
  assumes "action signal = SELL"
  shows "let p = portfolio st;
             q = or_zero (map_of (assets p) (ticker signal));
             v = js_mul q (to_number pr);
             st' = executeTrade clock signal d pr st
         in (if js_gt q (Fin 0) then
               map_of (assets (portfolio st')) = (map_of (assets p))(ticker signal := None) \<and>
               cash (portfolio st') = js_add (cash p) v \<and>
               trades st' = trades st @
                 [\<lparr>trade_id = trade_id_of d (ticker signal) (clock (length (trades st))),
                   trade_date = d, trade_ticker = ticker signal, trade_action = SELL,
                   quantity = q, price = pr, trade_value = v, trade_reason = reason signal\<rparr>]
             else st' = st) \<and>
            (map_of (assets p) (ticker signal) = None \<longrightarrow> st' = st)"
  using assms
  by (auto simp add: executeTrade_def Let_def delete_conv' or_zero_def js_gt_def)

theorem executeTrade_sell_witness:
  "(let st' = executeTrade (\<lambda>_. 7)
                \<lparr>ticker = ''A'', action = SELL, weight = None, reason = ''Negative momentum: -6.0%''\<rparr>
                ''2024-01-02'' (Some (Fin 6)) holding_state
    in map_of (assets (portfolio st')) ''A'' = None \<and>
       cash (portfolio st') = Fin 65 \<and>
       trades st' = trades holding_state @
         [\<lparr>trade_id = ''2024-01-02-A-7'', trade_date = ''2024-01-02'', trade_ticker = ''A'',
           trade_action = SELL, quantity = Fin 10, price = Some (Fin 6), trade_value = Fin 60,
           trade_reason = ''Negative momentum: -6.0%''\<rparr>]) \<and>
   executeTrade (\<lambda>_. 7)
     \<lparr>ticker = ''B'', action = SELL, weight = None, reason = ''Negative momentum: -6.0%''\<rparr>
     ''2024-01-02'' (Some (Fin 6)) holding_state = holding_state"
  using
    executeTrade_sell [of "\<lparr>ticker = ''A'', action = SELL, weight = None,
        reason = ''Negative momentum: -6.0%''\<rparr>" holding_state "Some (Fin 6)" "\<lambda>_. 7"
      "''2024-01-02''"]
    executeTrade_sell [of "\<lparr>ticker = ''B'', action = SELL, weight = None,
        reason = ''Negative momentum: -6.0%''\<rparr>" holding_state "Some (Fin 6)" "\<lambda>_. 7"
      "''2024-01-02''"]
  by (simp add: Let_def holding_state_def js_gt_def or_zero_def trade_id_of_def
      show_nat.simps digit_char_def)

text \<open>
  Claim C10. A BUY signal whose ticker has no close price on the simulated day changes
  nothing: no trade is appended, cash and positions stay as they are.
\<close>

theorem executeTrade_buy_missing_price:
  assumes "action signal = BUY"
    and "day_prices config hist d (ticker signal) = None"
  shows "executeTrade clock signal d (day_prices config hist d (ticker signal)) st = st"
  using assms by (simp add: executeTrade_def Let_def js_gt_def)

theorem executeTrade_buy_missing_price_witness:
  "day_prices gap_config gap_history ''2024-01-01'' ''B'' = None \<and>
   executeTrade (\<lambda>_. 7)
     \<lparr>ticker = ''B'', action = BUY, weight = Some (Fin (1 / 2)),
      reason = ''Initial equal weight allocation''\<rparr>
     ''2024-01-01'' (day_prices gap_config gap_history ''2024-01-01'' ''B'')
     (constructor gap_config) = constructor gap_config"
proof -
  have h: "day_prices gap_config gap_history ''2024-01-01'' ''B'' = None"
    by (simp add: day_prices_def gap_config_def gap_history_def bar_def)
  show ?thesis
    using h executeTrade_buy_missing_price [of "\<lparr>ticker = ''B'', action = BUY,
        weight = Some (Fin (1 / 2)), reason = ''Initial equal weight allocation''\<rparr>"
      gap_config gap_history "''2024-01-01''" "\<lambda>_. 7" "constructor gap_config"]
    by simp
qed

section \<open>Risk controls\<close>

text \<open>
  Claim C6. The risk controls compare strictly: a liquidation is forced (a line is
  written to the console and the positions are cleared) when and only when the current
  drawdown exceeds a hundredth of the max-drawdown percentage or the current loss from
  the initial capital exceeds a hundredth of the stop-loss percentage; a drawdown and a
  loss equal to their thresholds leave the ledger as it is.
\<close>

theorem applyRiskControls_strict:
  "let dd = calculateCurrentDrawdown st;
       loss = currentLoss st;
       maxDD = js_div (maxDrawdown (riskControls config)) (Fin 100);
       stop = js_div (stopLoss (riskControls config)) (Fin 100);
       st' = applyRiskControls config d st
   in (console st' \<noteq> console st \<longleftrightarrow> js_gt dd maxDD \<or> js_gt loss stop) \<and>
      (\<not> js_gt dd maxDD \<and> \<not> js_gt loss stop \<longrightarrow> st' = st) \<and>
      (dd = maxDD \<and> loss = stop \<longrightarrow> st' = st)"
  by (auto simp add: applyRiskControls_def Let_def liquidateAll_def js_gt_def)

theorem applyRiskControls_strict_witness:
  "calculateCurrentDrawdown (cash_state 80) =
     js_div (maxDrawdown (riskControls boundary_config)) (Fin 100) \<and>
   currentLoss (cash_state 80) = js_div (stopLoss (riskControls boundary_config)) (Fin 100) \<and>
   applyRiskControls boundary_config ''2024-01-01'' (cash_state 80) = cash_state 80 \<and>
   console (applyRiskControls boundary_config ''2024-01-01'' (cash_state 79)) \<noteq>
     console (cash_state 79)"
proof -
  have dd: "calculateCurrentDrawdown (cash_state 80) =
      js_div (maxDrawdown (riskControls boundary_config)) (Fin 100)"
    by (simp add: calculateCurrentDrawdown_def cash_state_def boundary_config_def
        js_max_list_def js_max_def js_sub_def)
  have loss: "currentLoss (cash_state 80) =
      js_div (stopLoss (riskControls boundary_config)) (Fin 100)"
    by (simp add: currentLoss_def cash_state_def boundary_config_def js_index_def js_sub_def)
  have over: "js_gt (calculateCurrentDrawdown (cash_state 79))
      (js_div (maxDrawdown (riskControls boundary_config)) (Fin 100))"
    by (simp add: calculateCurrentDrawdown_def cash_state_def boundary_config_def
        js_max_list_def js_max_def js_sub_def js_gt_def)
  show ?thesis
    using dd loss over
      applyRiskControls_strict [of "cash_state 80" boundary_config "''2024-01-01''"]
      applyRiskControls_strict [of "cash_state 79" boundary_config "''2024-01-01''"]
    by (simp add: Let_def)
qed

text \<open>What a liquidation does to the ledger: the cash is left as it is.\<close>

lemma liquidateAll_ledger:
  "assets (portfolio (liquidateAll d why st)) = [] \<and>
   cash (portfolio (liquidateAll d why st)) = cash (portfolio st) \<and>
   totalValue (portfolio (liquidateAll d why st)) = cash (portfolio st)"
  by (simp add: liquidateAll_def)

lemma applyRiskControls_cases:
  "applyRiskControls config d st = st \<or>
   (console (applyRiskControls config d st) \<noteq> console st \<and>
    assets (portfolio (applyRiskControls config d st)) = [] \<and>
    totalValue (portfolio (applyRiskControls config d st)) =
      cash (portfolio (applyRiskControls config d st)))"
  by (auto simp add: applyRiskControls_def Let_def liquidateAll_def)

section \<open>The simulated day and the run\<close>

lemma updatePortfolioValue_total:
  "totalValue (portfolio (updatePortfolioValue d prices st)) =
   marked_value prices (portfolio (updatePortfolioValue d prices st))"
  by (simp add: updatePortfolioValue_def marked_value_def Let_def)

text \<open>
  Claim C5. After a day's mark-to-market and risk check the total value is the cash plus
  the sum over the held positions of quantity times that day's close, a ticker without a
  price counting with 0; when the risk check forced a liquidation, the positions are
  empty and the cash equals the total value.
\<close>

theorem day_total_value:
  "let prices = day_prices config hist d;
       st1 = simulateDay clock config hist d i st;
       st' = applyRiskControls config d st1
   in totalValue (portfolio st') = marked_value prices (portfolio st') \<and>
      (console st' \<noteq> console st1 \<longrightarrow>
         assets (portfolio st') = [] \<and> cash (portfolio st') = totalValue (portfolio st'))"
proof -
  define prices where "prices = day_prices config hist d"
  define st1 where "st1 = simulateDay clock config hist d i st"
  have a: "totalValue (portfolio st1) = marked_value prices (portfolio st1)"
    unfolding st1_def prices_def simulateDay_def Let_def by (rule updatePortfolioValue_total)
  from applyRiskControls_cases [of config d st1]
  have "totalValue (portfolio (applyRiskControls config d st1)) =
          marked_value prices (portfolio (applyRiskControls config d st1)) \<and>
        (console (applyRiskControls config d st1) \<noteq> console st1 \<longrightarrow>
           assets (portfolio (applyRiskControls config d st1)) = [] \<and>
           cash (portfolio (applyRiskControls config d st1)) =
             totalValue (portfolio (applyRiskControls config d st1)))"
  proof
    assume "applyRiskControls config d st1 = st1"
    then show ?thesis using a by simp
  next
    assume "console (applyRiskControls config d st1) \<noteq> console st1 \<and>
      assets (portfolio (applyRiskControls config d st1)) = [] \<and>
      totalValue (portfolio (applyRiskControls config d st1)) =
        cash (portfolio (applyRiskControls config d st1))"
    then show ?thesis by (simp add: marked_value_def)
  qed
  then show ?thesis by (simp add: Let_def prices_def st1_def)
qed

text \<open>The examples: loading, the calendar and the first day of the falling run.\<close>

lemma load_falling: "loadHistoricalData falling_source falling_config = Inr falling_history"
  by (simp add: loadHistoricalData_def falling_source_def falling_config_def falling_history_def)

lemma getTradingDates_falling:
  "getTradingDates falling_history = [''2024-01-01'', ''2024-01-02'', ''2024-01-03'']"
  by code_simp

lemma holding_state_reached:
  "daily_loop (\<lambda>_. 7) falling_config falling_history [''2024-01-01''] 0
     (constructor falling_config) = holding_state"
  by code_simp

lemma falling_second_day:
  "simulateDay (\<lambda>_. 7) falling_config falling_history ''2024-01-02'' 1 holding_state =
     holding_state\<lparr>portfolio :=
       \<lparr>assets = [(''A'', Fin 10)], cash = Fin 5, totalValue = Fin 55,
        dailyReturns = [Fin 0, Fin (- 10 / 21)], dates = [''2024-01-01'', ''2024-01-02''],
        values_hist = [Fin 105, Fin 105, Fin 55]\<rparr>\<rparr>"
  by code_simp

theorem day_total_value_witness:
  "let st1 = simulateDay (\<lambda>_. 7) falling_config falling_history ''2024-01-02'' 1 holding_state;
       st' = applyRiskControls falling_config ''2024-01-02'' st1
   in console st' \<noteq> console st1 \<and>
      assets (portfolio st') = [] \<and>
      cash (portfolio st') = totalValue (portfolio st') \<and>
      totalValue (portfolio st') =
        marked_value (day_prices falling_config falling_history ''2024-01-02'') (portfolio st')"
proof -
  have "console (applyRiskControls falling_config ''2024-01-02''
          (simulateDay (\<lambda>_. 7) falling_config falling_history ''2024-01-02'' 1 holding_state)) \<noteq>
        console (simulateDay (\<lambda>_. 7) falling_config falling_history ''2024-01-02'' 1 holding_state)"
    unfolding falling_second_day by code_simp
  then show ?thesis
    using day_total_value [of falling_config falling_history "''2024-01-02''" "\<lambda>_. 7" 1
        holding_state]
    by (simp add: Let_def)
qed

text \<open>
  Claim C1. A forced liquidation clears all positions and sets the cash to the
  portfolio's total value, so that the value of the positions becomes cash. On the second
  day of the falling run the ledger holds ten shares marked at 5 and 5 in cash, a total
  value of 55; the liquidation that the drawdown forces leaves the cash at 5 and sets the
  total value to 5.
\<close>

theorem liquidation_drops_position_value:
  "let st1 = simulateDay (\<lambda>_. 7) falling_config falling_history ''2024-01-02'' 1 holding_state;
       st' = applyRiskControls falling_config ''2024-01-02'' st1
   in assets (portfolio st1) = [(''A'', Fin 10)] \<and>
      cash (portfolio st1) = Fin 5 \<and>
      totalValue (portfolio st1) = Fin 55 \<and>
      console st' =
        [''Liquidating all positions on 2024-01-02 due to Max drawdown exceeded'',
         ''Liquidating all positions on 2024-01-02 due to Stop loss triggered''] \<and>
      assets (portfolio st') = [] \<and>
      cash (portfolio st') = Fin 5 \<and>
      totalValue (portfolio st') = Fin 5"
  unfolding falling_second_day by code_simp

section \<open>The shape of the ledger's history\<close>

lemma executeTrade_history:
  "values_hist (portfolio (executeTrade clock signal d pr st)) = values_hist (portfolio st) \<and>
   dailyReturns (portfolio (executeTrade clock signal d pr st)) = dailyReturns (portfolio st) \<and>
   dates (portfolio (executeTrade clock signal d pr st)) = dates (portfolio st) \<and>
   console (executeTrade clock signal d pr st) = console st"
  by (simp add: executeTrade_def Let_def split: Action.splits)

lemma seeded_executeTrade: "seeded c st \<Longrightarrow> seeded c (executeTrade clock signal d pr st)"
  by (simp add: seeded_def executeTrade_history)

lemma seeded_fold_executeTrade:
  "seeded c st \<Longrightarrow>
   seeded c (fold (\<lambda>signal s. executeTrade clock signal d (prices (ticker signal)) s) signals st)"
  by (induction signals arbitrary: st) (simp_all add: seeded_executeTrade)

lemma seeded_updatePortfolioValue: "seeded c st \<Longrightarrow> seeded c (updatePortfolioValue d prices st)"
  by (auto simp add: seeded_def updatePortfolioValue_def Let_def js_index_def nth_append
      split: if_splits)

lemma seeded_liquidateAll: "seeded c st \<Longrightarrow> seeded c (liquidateAll d why st)"
  by (simp add: seeded_def liquidateAll_def)

lemma seeded_applyRiskControls: "seeded c st \<Longrightarrow> seeded c (applyRiskControls config d st)"
  by (simp add: applyRiskControls_def Let_def seeded_liquidateAll)

lemma seeded_simulateDay: "seeded c st \<Longrightarrow> seeded c (simulateDay clock config hist d i st)"
  by (simp add: simulateDay_def Let_def seeded_updatePortfolioValue seeded_fold_executeTrade)

lemma seeded_daily_loop: "seeded c st \<Longrightarrow> seeded c (daily_loop clock config hist ds i st)"
  by (induction ds arbitrary: i st)
     (simp_all add: seeded_applyRiskControls seeded_simulateDay)

lemma seeded_constructor: "seeded (initialCapital config) (constructor config)"
  by (simp add: seeded_def constructor_def js_index_def)

lemma runSimulation_Inr:
  "loadHistoricalData fetch config = Inr hist \<Longrightarrow>
   runSimulation fetch clock config =
     Inr \<lparr>res_portfolio =
            portfolio (daily_loop clock config hist (getTradingDates hist) 0 (constructor config)),
          res_trades =
            trades (daily_loop clock config hist (getTradingDates hist) 0 (constructor config)),
          metrics =
            calculateMetrics
              (daily_loop clock config hist (getTradingDates hist) 0 (constructor config)),
          chartData =
            generateChartData config
              (daily_loop clock config hist (getTradingDates hist) 0 (constructor config))\<rparr>"
  by (simp add: runSimulation_def simulate_def Let_def)

text \<open>
  Claim C3. During and after a run the valuation history starts with the initial
  capital, there is one daily return less than there are valuations, and every daily
  return is the relative change between its two valuations, also in a run with a forced
  liquidation. In the falling run the valuations are 105, 105, 55, 5 and the daily
  returns 0, -10/21, 0: after the liquidation of the second day the third return is
  taken against the total value that the liquidation reset, not against the valuation 55
  of the history, which gives -10/11.
\<close>

theorem falling_run_returns:
  "map_sum id (\<lambda>r. (values_hist (res_portfolio r), dailyReturns (res_portfolio r)))
     (runSimulation falling_source (\<lambda>_. 7) falling_config) =
   Inr ([Fin 105, Fin 105, Fin 55, Fin 5], [Fin 0, Fin (- 10 / 21), Fin 0]) \<and>
   js_div (js_sub (Fin 5) (Fin 55)) (Fin 55) = Fin (- 10 / 11)"
proof -
  have "portfolio (daily_loop (\<lambda>_. 7) falling_config falling_history
      [''2024-01-01'', ''2024-01-02'', ''2024-01-03''] 0 (constructor falling_config)) =
    \<lparr>assets = [], cash = Fin 5, totalValue = Fin 5,
     dailyReturns = [Fin 0, Fin (- 10 / 21), Fin 0],
     dates = [''2024-01-01'', ''2024-01-02'', ''2024-01-03''],
     values_hist = [Fin 105, Fin 105, Fin 55, Fin 5]\<rparr>"
    by code_simp
  then show ?thesis
    by (simp add: runSimulation_Inr [OF load_falling] getTradingDates_falling js_sub_def)
qed

section \<open>Configurations and errors\<close>

lemma load_tickers_Inr:
  "(\<exists>h'. load_tickers fetch config ts h = Inr h') \<longleftrightarrow>
   (\<forall>t \<in> set ts. \<exists>bars. fetch t (startDate config) (endDate config) = Inr bars)"
proof (induction ts arbitrary: h)
  case Nil
  show ?case by simp
next
  case (Cons t ts)
  show ?case
  proof (cases "fetch t (startDate config) (endDate config)")
    case (Inl e)
    then show ?thesis by auto
  next
    case (Inr bars)
    then show ?thesis using Cons.IH [of "AList.update t bars h"] by simp
  qed
qed

text \<open>
  Claim C2, as amended. The simulator does not check the configuration. A run fails
  exactly when the price source fails for one of the configured tickers, whatever the
  ticker set, the two dates and the initial capital are; every other run returns a result
  whose ledger has a valuation history that starts with the initial capital and has one
  entry more than the daily returns.
\<close>

theorem runSimulation_no_validation:
  "((\<exists>r. runSimulation fetch clock config = Inr r) \<longleftrightarrow>
      (\<forall>t \<in> set (tickers config). \<exists>bars. fetch t (startDate config) (endDate config) = Inr bars)) \<and>
   (\<forall>r. runSimulation fetch clock config = Inr r \<longrightarrow>
      js_index (values_hist (res_portfolio r)) 0 = Some (initialCapital config) \<and>
      length (values_hist (res_portfolio r)) = Suc (length (dailyReturns (res_portfolio r))))"
proof (cases "loadHistoricalData fetch config")
  case (Inl e)
  then have "runSimulation fetch clock config = Inl e"
    by (simp add: runSimulation_def simulate_def)
  moreover have "\<not> (\<forall>t \<in> set (tickers config).
      \<exists>bars. fetch t (startDate config) (endDate config) = Inr bars)"
    using Inl load_tickers_Inr [of fetch config "tickers config" "[]"]
    by (simp add: loadHistoricalData_def)
  ultimately show ?thesis by simp
next
  case (Inr hist)
  have all: "\<forall>t \<in> set (tickers config).
      \<exists>bars. fetch t (startDate config) (endDate config) = Inr bars"
    using Inr load_tickers_Inr [of fetch config "tickers config" "[]"]
    by (simp add: loadHistoricalData_def)
  have "seeded (initialCapital config)
      (daily_loop clock config hist (getTradingDates hist) 0 (constructor config))"
    by (rule seeded_daily_loop) (rule seeded_constructor)
  then show ?thesis
    using all by (simp add: runSimulation_Inr [OF Inr] seeded_def)
qed

theorem runSimulation_no_validation_witness:
  "\<exists>r. runSimulation falling_source (\<lambda>_. 7) reversed_config = Inr r \<and>
       js_index (values_hist (res_portfolio r)) 0 = Some (Fin 0)"
  using runSimulation_no_validation [of falling_source "\<lambda>_. 7" reversed_config]
  by (auto simp add: falling_source_def reversed_config_def)

text \<open>
  Claim C2 as stated fails: with an empty ticker set, a start date after the end date and
  a negative initial capital the run returns a result, and its ledger is the one the
  constructor created.
\<close>

theorem invalid_config_counterexample:
  "runSimulation falling_source (\<lambda>_. 7) invalid_config =
     Inr \<lparr>res_portfolio =
            \<lparr>assets = [], cash = Fin (- 5), totalValue = Fin (- 5), dailyReturns = [],
             dates = [], values_hist = [Fin (- 5)]\<rparr>,
          res_trades = [],
          metrics =
            \<lparr>totalReturn = Fin 0, sharpeRatio = Fin 0, maxDrawdown_m = Fin 0, winRate = Fin 0,
             volatility = Fin 0, alpha = Fin 0.02, beta = Fin 1.1\<rparr>,
          chartData = []\<rparr>"
  by (simp add: runSimulation_def simulate_def loadHistoricalData_def invalid_config_def
      getTradingDates_def set_order_def constructor_def calculateMetrics_def
      calculateSharpeRatio_def calculateVolatility_def calculateMaxDrawdown_def
      calculateWinRate_def generateChartData_def js_index_def js_sub_def js_max_def js_gt_def
      Let_def)

section \<open>Two runs of one configuration\<close>

lemma same_but_ids_length: "same_but_ids s1 s2 \<Longrightarrow> length (trades s1) = length (trades s2)"
  unfolding same_but_ids_def by (metis length_map)

lemma same_but_ids_executeTrade:
  "same_but_ids s1 s2 \<Longrightarrow>
   same_but_ids (executeTrade c1 signal d pr s1) (executeTrade c2 signal d pr s2)"
  by (simp add: same_but_ids_def executeTrade_def Let_def without_id_def split: Action.splits)

lemma same_but_ids_fold:
  "same_but_ids s1 s2 \<Longrightarrow>
   same_but_ids (fold (\<lambda>signal s. executeTrade c1 signal d (prices (ticker signal)) s) signals s1)
     (fold (\<lambda>signal s. executeTrade c2 signal d (prices (ticker signal)) s) signals s2)"
  by (induction signals arbitrary: s1 s2) (simp_all add: same_but_ids_executeTrade)

lemma generateSignals_portfolio:
  "portfolio s1 = portfolio s2 \<Longrightarrow>
   generateSignals config hist d i prices s1 = generateSignals config hist d i prices s2"
  unfolding generateSignals_def by simp

lemma same_but_ids_updatePortfolioValue:
  assumes "same_but_ids s1 s2"
  shows "same_but_ids (updatePortfolioValue d prices s1) (updatePortfolioValue d prices s2)"
proof -
  have p: "portfolio s1 = portfolio s2" and c: "console s1 = console s2"
    and t: "map without_id (trades s1) = map without_id (trades s2)"
    using assms by (simp_all add: same_but_ids_def)
  show ?thesis
    unfolding same_but_ids_def updatePortfolioValue_def Let_def
    by (simp add: p c t)
qed

lemma same_but_ids_simulateDay:
  assumes "same_but_ids s1 s2"
  shows "same_but_ids (simulateDay c1 config hist d i s1) (simulateDay c2 config hist d i s2)"
proof -
  have "portfolio s1 = portfolio s2"
    using assms by (simp add: same_but_ids_def)
  then have g: "generateSignals config hist d i (day_prices config hist d) s1 =
        generateSignals config hist d i (day_prices config hist d) s2"
    by (rule generateSignals_portfolio)
  show ?thesis
    unfolding simulateDay_def Let_def g
    by (rule same_but_ids_updatePortfolioValue) (rule same_but_ids_fold [OF assms])
qed

lemma same_but_ids_liquidateAll:
  assumes "same_but_ids s1 s2"
  shows "same_but_ids (liquidateAll d why s1) (liquidateAll d why s2)"
proof -
  have p: "portfolio s1 = portfolio s2" and c: "console s1 = console s2"
    and t: "map without_id (trades s1) = map without_id (trades s2)"
    using assms by (simp_all add: same_but_ids_def)
  show ?thesis
    unfolding same_but_ids_def liquidateAll_def
    by (simp add: p c t)
qed

lemma calculateCurrentDrawdown_portfolio:
  "portfolio s1 = portfolio s2 \<Longrightarrow> calculateCurrentDrawdown s1 = calculateCurrentDrawdown s2"
  unfolding calculateCurrentDrawdown_def by simp

lemma currentLoss_portfolio:
  "portfolio s1 = portfolio s2 \<Longrightarrow> currentLoss s1 = currentLoss s2"
  unfolding currentLoss_def by simp

lemma same_but_ids_if_liquidateAll:
  assumes "same_but_ids s1 s2"
  shows "same_but_ids (if b then liquidateAll d why s1 else s1)
     (if b then liquidateAll d why s2 else s2)"
proof (cases b)
  case True
  then show ?thesis using same_but_ids_liquidateAll [OF assms] by simp
next
  case False
  then show ?thesis using assms by simp
qed

lemma same_but_ids_applyRiskControls:
  assumes "same_but_ids s1 s2"
  shows "same_but_ids (applyRiskControls config d s1) (applyRiskControls config d s2)"
proof -
  have p: "portfolio s1 = portfolio s2"
    using assms unfolding same_but_ids_def by blast
  have dd: "calculateCurrentDrawdown s1 = calculateCurrentDrawdown s2"
    using p by (rule calculateCurrentDrawdown_portfolio)
  define b where "b = js_gt (calculateCurrentDrawdown s2)
      (js_div (maxDrawdown (riskControls config)) (Fin 100))"
  define a1 where "a1 = (if b then liquidateAll d ''Max drawdown exceeded'' s1 else s1)"
  define a2 where "a2 = (if b then liquidateAll d ''Max drawdown exceeded'' s2 else s2)"
  have a: "same_but_ids a1 a2"
    unfolding a1_def a2_def using assms by (rule same_but_ids_if_liquidateAll)
  then have "portfolio a1 = portfolio a2"
    unfolding same_but_ids_def by blast
  then have l: "currentLoss a1 = currentLoss a2"
    by (rule currentLoss_portfolio)
  define c where "c = js_gt (currentLoss a2) (js_div (stopLoss (riskControls config)) (Fin 100))"
  have r: "same_but_ids (if c then liquidateAll d ''Stop loss triggered'' a1 else a1)
      (if c then liquidateAll d ''Stop loss triggered'' a2 else a2)"
    using a by (rule same_but_ids_if_liquidateAll)
  have e1: "applyRiskControls config d s1 =
      (if c then liquidateAll d ''Stop loss triggered'' a1 else a1)"
    unfolding applyRiskControls_def Let_def c_def l [symmetric] a1_def b_def dd ..
  have e2: "applyRiskControls config d s2 =
      (if c then liquidateAll d ''Stop loss triggered'' a2 else a2)"
    unfolding applyRiskControls_def Let_def c_def a2_def b_def ..
  show ?thesis
    unfolding e1 e2 by (rule r)
qed

lemma same_but_ids_daily_loop:
  "same_but_ids s1 s2 \<Longrightarrow>
   same_but_ids (daily_loop c1 config hist ds i s1) (daily_loop c2 config hist ds i s2)"
proof (induction ds arbitrary: i s1 s2)
  case Nil
  then show ?case by simp
next
  case (Cons d ds)
  have "same_but_ids (applyRiskControls config d (simulateDay c1 config hist d i s1))
      (applyRiskControls config d (simulateDay c2 config hist d i s2))"
    by (rule same_but_ids_applyRiskControls) (rule same_but_ids_simulateDay [OF Cons.prems])
  then show ?case
    using Cons.IH by simp
qed

lemma find_map_list: "find P (map f xs) = map_option f (find (P \<circ> f) xs)"
  by (induction xs) simp_all

lemma calculateWinRate_without_id:
  "calculateWinRate st = calculateWinRate (st\<lparr>trades := map without_id (trades st)\<rparr>)"
  by (simp add: calculateWinRate_def Let_def filter_map find_map_list o_def without_id_def
      case_map_option)
     (simp add: without_id_def cong: option.case_cong)

lemma same_but_ids_calculateWinRate:
  assumes "same_but_ids s1 s2"
  shows "calculateWinRate s1 = calculateWinRate s2"
proof -
  have "calculateWinRate (s1\<lparr>trades := map without_id (trades s1)\<rparr>) =
        calculateWinRate (s2\<lparr>trades := map without_id (trades s2)\<rparr>)"
    using assms by (simp add: same_but_ids_def calculateWinRate_def)
  then show ?thesis
    using calculateWinRate_without_id [of s1] calculateWinRate_without_id [of s2] by simp
qed

lemma same_but_ids_calculateMetrics:
  "same_but_ids s1 s2 \<Longrightarrow> calculateMetrics s1 = calculateMetrics s2"
  using same_but_ids_calculateWinRate [of s1 s2]
  by (simp add: calculateMetrics_def Let_def calculateMaxDrawdown_def same_but_ids_def)

lemma same_but_ids_generateChartData:
  "same_but_ids s1 s2 \<Longrightarrow> generateChartData config s1 = generateChartData config s2"
  by (simp add: generateChartData_def same_but_ids_def)

text \<open>
  Claim C4, as amended. Two runs of one configuration against one price source, whatever
  the wall clock reads during either, return the same ledger, the same performance
  metrics, the same chart series and trade logs that agree in every field of every trade
  but the identifier.
\<close>

theorem runs_agree_but_ids:
  "map_sum id (\<lambda>r. (res_portfolio r, map without_id (res_trades r), metrics r, chartData r))
     (runSimulation fetch clock1 config) =
   map_sum id (\<lambda>r. (res_portfolio r, map without_id (res_trades r), metrics r, chartData r))
     (runSimulation fetch clock2 config)"
proof (cases "loadHistoricalData fetch config")
  case (Inl e)
  then show ?thesis by (simp add: runSimulation_def simulate_def)
next
  case (Inr hist)
  have "same_but_ids (constructor config) (constructor config)"
    by (simp add: same_but_ids_def)
  then have "same_but_ids
      (daily_loop clock1 config hist (getTradingDates hist) 0 (constructor config))
      (daily_loop clock2 config hist (getTradingDates hist) 0 (constructor config))"
    by (rule same_but_ids_daily_loop)
  then show ?thesis
    using Inr
    by (simp add: runSimulation_def simulate_def Let_def same_but_ids_calculateMetrics
        same_but_ids_generateChartData)
       (simp add: same_but_ids_def)
qed

text \<open>
  Claim C4 as stated fails: the identifier of a trade ends with the reading of the wall
  clock, so the trade logs of two runs of the falling example with different readings
  differ.
\<close>

theorem trade_ids_counterexample:
  "map_sum id res_trades (runSimulation falling_source (\<lambda>_. 7) falling_config) \<noteq>
   map_sum id res_trades (runSimulation falling_source (\<lambda>_. 8) falling_config)"
proof -
  have a: "trades (daily_loop (\<lambda>_. 7) falling_config falling_history
      [''2024-01-01'', ''2024-01-02'', ''2024-01-03''] 0 (constructor falling_config)) =
     [\<lparr>trade_id = ''2024-01-01-A-7'', trade_date = ''2024-01-01'', trade_ticker = ''A'',
          trade_action = BUY, quantity = Fin 10, price = Some (Fin 10), trade_value = Fin 100,
          trade_reason = ''Initial equal weight allocation''\<rparr>]"
    by code_simp
  have b: "trades (daily_loop (\<lambda>_. 8) falling_config falling_history
      [''2024-01-01'', ''2024-01-02'', ''2024-01-03''] 0 (constructor falling_config)) =
     [\<lparr>trade_id = ''2024-01-01-A-8'', trade_date = ''2024-01-01'', trade_ticker = ''A'',
          trade_action = BUY, quantity = Fin 10, price = Some (Fin 10), trade_value = Fin 100,
          trade_reason = ''Initial equal weight allocation''\<rparr>]"
    by code_simp
  show ?thesis
    unfolding runSimulation_Inr [OF load_falling] getTradingDates_falling
    by (simp add: a b del: daily_loop.simps)
qed

section \<open>The momentum strategy\<close>

lemma findIndex_takeWhile:
  "findIndex P xs =
     (if length (takeWhile (\<lambda>x. \<not> P x) xs) < length xs
      then int (length (takeWhile (\<lambda>x. \<not> P x) xs)) else - 1)"
  by (induction xs) (simp_all add: Let_def)

lemma getRecentPrices_trailing:
  "getRecentPrices hist t d 20 =
     (if length (trailing_closes (bars_of hist t) d 20) = 20
      then trailing_closes (bars_of hist t) d 20 else [])"
proof -
  define bars where "bars = bars_of hist t"
  define k where "k = length (takeWhile (\<lambda>b. date b \<noteq> d) bars)"
  have g: "getRecentPrices hist t d 20 =
      (if k < length bars \<and> 19 \<le> k then map close (take 20 (drop (k - 19) bars)) else [])"
    unfolding getRecentPrices_def Let_def bars_of_def [symmetric] bars_def [symmetric]
      findIndex_takeWhile k_def [symmetric] slice_def
    by (auto simp add: nat_diff_distrib' max_def)
  have w: "trailing_closes bars d 20 =
      (if k < length bars then map close (drop (Suc k - 20) (take (Suc k) bars)) else [])"
    unfolding trailing_closes_def Let_def k_def [symmetric] ..
  show ?thesis
  proof (cases "k < length bars \<and> 19 \<le> k")
    case True
    then have "take 20 (drop (k - 19) bars) = drop (Suc k - 20) (take (Suc k) bars)"
      by (simp add: take_drop)
    then show ?thesis
      unfolding bars_def [symmetric] g w using True by simp
  next
    case False
    then show ?thesis
      unfolding bars_def [symmetric] g w by auto
  qed
qed

lemma momentum_ticker:
  "set (let recent = getRecentPrices hist t d 20
        in if 20 \<le> length recent then
             (let momentum =
                    js_div (js_sub (recent ! (length recent - 1)) (recent ! 0)) (recent ! 0)
              in if js_gt momentum (Fin 0.05) \<and> \<not> has_key (assets p) t then
                   [\<lparr>ticker = t, action = BUY, weight = Some (Fin 0.2),
                     reason = ''Strong momentum: '' @ toFixed1 (js_mul momentum (Fin 100)) @ ''%''\<rparr>]
                 else if js_lt momentum (Fin (- 0.05)) \<and> has_key (assets p) t then
                   [\<lparr>ticker = t, action = SELL, weight = None,
                     reason = ''Negative momentum: '' @ toFixed1 (js_mul momentum (Fin 100)) @ ''%''\<rparr>]
                 else [])
           else []) =
   {s. length (trailing_closes (bars_of hist t) d 20) = 20 \<and>
       (let m = momentum_of (trailing_closes (bars_of hist t) d 20)
        in (js_gt m (Fin 0.05) \<and> \<not> has_key (assets p) t \<and>
            s = \<lparr>ticker = t, action = BUY, weight = Some (Fin 0.2),
                  reason = ''Strong momentum: '' @ toFixed1 (js_mul m (Fin 100)) @ ''%''\<rparr>) \<or>
           (js_lt m (Fin (- 0.05)) \<and> has_key (assets p) t \<and>
            s = \<lparr>ticker = t, action = SELL, weight = None,
                  reason = ''Negative momentum: '' @ toFixed1 (js_mul m (Fin 100)) @ ''%''\<rparr>))}"
proof -
  define w where "w = trailing_closes (bars_of hist t) d 20"
  show ?thesis
  proof (cases "length w = 20")
    case True
    then have "w \<noteq> []" by auto
    then have m: "js_div (js_sub (w ! (length w - 1)) (w ! 0)) (w ! 0) = momentum_of w"
      by (simp add: momentum_of_def last_conv_nth hd_conv_nth)
    have r: "getRecentPrices hist t d 20 = w"
      unfolding getRecentPrices_trailing w_def [symmetric] using True by simp
    have l: "20 \<le> length w"
      using True by simp
    show ?thesis
      unfolding r w_def [symmetric] Let_def m
      using True by (cases "js_gt (momentum_of w) (Fin 0.05) \<and> \<not> has_key (assets p) t")
        auto
  next
    case False
    then have r: "getRecentPrices hist t d 20 = []"
      unfolding getRecentPrices_trailing w_def [symmetric] by simp
    show ?thesis
      unfolding r w_def [symmetric] Let_def using False by simp
  qed
qed

text \<open>
  Claim C9. Under the momentum strategy a signal is emitted only from day index 20 on and
  only for a configured ticker whose trailing window ending at the current date has
  exactly 20 closes; with the momentum of that window, a BUY with weight 0.2 is emitted
  when and only when the momentum exceeds 0.05 and the ticker has no open position, a
  SELL when and only when the momentum is below -0.05 and the ticker has one.
\<close>

theorem momentum_signals_spec:
  assumes "strategy config = ''momentum''"
  shows "set (generateSignals config hist d i prices st) =
    {s. \<exists>t \<in> set (tickers config).
          20 \<le> i \<and>
          length (trailing_closes (bars_of hist t) d 20) = 20 \<and>
          (let m = momentum_of (trailing_closes (bars_of hist t) d 20)
           in (js_gt m (Fin 0.05) \<and> \<not> has_key (assets (portfolio st)) t \<and>
               s = \<lparr>ticker = t, action = BUY, weight = Some (Fin 0.2),
                     reason = ''Strong momentum: '' @ toFixed1 (js_mul m (Fin 100)) @ ''%''\<rparr>) \<or>
              (js_lt m (Fin (- 0.05)) \<and> has_key (assets (portfolio st)) t \<and>
               s = \<lparr>ticker = t, action = SELL, weight = None,
                     reason = ''Negative momentum: '' @ toFixed1 (js_mul m (Fin 100)) @ ''%''\<rparr>))}"
proof -
  have g: "generateSignals config hist d i prices st =
      momentum_signals config hist d i (portfolio st)"
    using assms by (simp add: generateSignals_def)
  show ?thesis
  proof (cases "20 \<le> i")
    case True
    show ?thesis
      unfolding g momentum_signals_def set_concat set_map if_P [OF True] UN_simps
        momentum_ticker
      using True by auto
  next
    case False
    then show ?thesis
      unfolding g momentum_signals_def by simp
  qed
qed

lemma rising_window:
  "trailing_closes (bars_of rising_history ''A'') ''2024-01-30'' 20 =
     map (\<lambda>k. Fin (real k)) [101 ..< 121]"
  by code_simp

lemma rising_window_length:
  "length (trailing_closes (bars_of rising_history ''A'') ''2024-01-30'' 20) = 20"
  unfolding rising_window by simp

lemma rising_momentum:
  "momentum_of (trailing_closes (bars_of rising_history ''A'') ''2024-01-30'' 20) = Fin (19 / 101)"
  by code_simp

lemma rising_reason: "toFixed1 (Fin (1900 / 101)) = ''18.8''"
  by code_simp

theorem momentum_signals_spec_witness:
  "strategy rising_config = ''momentum'' \<and>
   \<lparr>ticker = ''A'', action = BUY, weight = Some (Fin 0.2), reason = ''Strong momentum: 18.8%''\<rparr>
     \<in> set (generateSignals rising_config rising_history ''2024-01-30'' 20
              (day_prices rising_config rising_history ''2024-01-30'') (constructor rising_config))"
proof -
  have s: "strategy rising_config = ''momentum''"
    by (simp add: rising_config_def)
  have t: "tickers rising_config = [''A'']"
    by (simp add: rising_config_def)
  have k: "\<not> has_key (assets (portfolio (constructor rising_config))) ''A''"
    by (simp add: has_key_def constructor_def)
  have "\<lparr>ticker = ''A'', action = BUY, weight = Some (Fin 0.2),
        reason = ''Strong momentum: 18.8%''\<rparr>
     \<in> set (generateSignals rising_config rising_history ''2024-01-30'' 20
              (day_prices rising_config rising_history ''2024-01-30'') (constructor rising_config))"
    unfolding momentum_signals_spec [OF s] t
    using k by (simp add: js_gt_def rising_window_length rising_momentum rising_reason Let_def)
  then show ?thesis using s by simp
qed

end
